theory Spec2Isabelle
  imports Complex_Main
begin

section \<open>Python values, exceptions and expressions\<close>

text \<open>
  PyTracker is Python. Its numbers are Python floats (the entries of an OpenVR pose matrix,
  clock readings) and integers (slot indices, sample counts). Floats are idealised as
  \<^typ>\<open>real\<close>: no rounding, overflow or NaN. What the model keeps of float arithmetic is
  its control flow: division by a zero divisor raises \<open>ZeroDivisionError\<close> and
  \<open>math.sqrt\<close> of a negative number raises \<open>ValueError\<close>.

  An exception is a value of type \<open>error\<close>. A pure expression evaluates to
  \<open>error + 'a\<close>; a statement that mutates an object returns the raised exception, if any,
  together with the object as the exception leaves it.
\<close>

datatype error =
    IndexError
  | KeyError string
  | ZeroDivisionError
  | ValueError
  | Exception string

definition bindE :: "error + 'a \<Rightarrow> ('a \<Rightarrow> error + 'b) \<Rightarrow> error + 'b" where
  "bindE r f = (case r of Inl e \<Rightarrow> Inl e | Inr v \<Rightarrow> f v)"

text \<open>\<open>xs[i]\<close> for a non-negative index: \<open>IndexError\<close> out of range.\<close>

definition getitem :: "'a list \<Rightarrow> nat \<Rightarrow> error + 'a" where
  "getitem xs i = (if i < length xs then Inr (xs ! i) else Inl IndexError)"

text \<open>\<open>pose_mat[i][j]\<close>\<close>

definition entry :: "real list list \<Rightarrow> nat \<Rightarrow> nat \<Rightarrow> error + real" where
  "entry pose_mat i j = bindE (getitem pose_mat i) (\<lambda>row. getitem row j)"

text \<open>\<open>a / b\<close>\<close>

definition divE :: "real \<Rightarrow> real \<Rightarrow> error + real" where
  "divE a b = (if b = 0 then Inl ZeroDivisionError else Inr (a / b))"

text \<open>\<open>math.sqrt(a)\<close>\<close>

definition sqrtE :: "real \<Rightarrow> error + real" where
  "sqrtE a = (if a < 0 then Inl ValueError else Inr (sqrt a))"

text \<open>
  \<open>math.atan2(y, x)\<close> of the standard library, over the reals: the angle of the point
  \<open>(x, y)\<close> in \<open>(-pi, pi]\<close>, and 0 at the origin.
\<close>

definition atan2 :: "real \<Rightarrow> real \<Rightarrow> real" where
  "atan2 y x =
     (if 0 < x then arctan (y / x)
      else if x < 0 then (if 0 \<le> y then arctan (y / x) + pi else arctan (y / x) - pi)
      else if 0 < y then pi / 2
      else if y < 0 then - (pi / 2)
      else 0)"

text \<open>\<open>str(n)\<close> for a non-negative integer.\<close>

fun str :: "nat \<Rightarrow> string" where
  "str n = (if n < 10 then [''0123456789'' ! n]
            else str (n div 10) @ [''0123456789'' ! (n mod 10)])"

declare str.simps [simp del]

section \<open>Coordinate transform (core/utils.py)\<close>

definition is_3x4 :: "real list list \<Rightarrow> bool" where
  "is_3x4 pose_mat = (length pose_mat = 3 \<and> list_all (\<lambda>row. length row = 4) pose_mat)"

definition identity :: "real list list" where
  "identity = [[1, 0, 0, 0], [0, 1, 0, 0], [0, 0, 1, 0]]"

text \<open>
  Pose matrices of rotations about the third axis: a quarter turn, a half turn, and the
  turn by the angle with cosine \<open>-3/5\<close> and sine \<open>4/5\<close>.
\<close>

definition rot_z_90 :: "real list list" where
  "rot_z_90 = [[0, - 1, 0, 0], [1, 0, 0, 0], [0, 0, 1, 0]]"

definition rot_z_180 :: "real list list" where
  "rot_z_180 = [[- 1, 0, 0, 0], [0, - 1, 0, 0], [0, 0, 1, 0]]"

definition rot_z_obtuse :: "real list list" where
  "rot_z_obtuse = [[- 3 / 5, - 4 / 5, 0, 0], [4 / 5, - 3 / 5, 0, 0], [0, 0, 1, 0]]"

definition convert_to_euler :: "real list list \<Rightarrow> error + real list" where
  "convert_to_euler pose_mat =
     bindE (entry pose_mat 1 0) (\<lambda>m10.
     bindE (entry pose_mat 0 0) (\<lambda>m00.
     let yaw = 180 / pi * atan2 m10 m00 in
     bindE (entry pose_mat 2 0) (\<lambda>m20.
     bindE (entry pose_mat 2 1) (\<lambda>m21.
     bindE (entry pose_mat 2 2) (\<lambda>m22.
     bindE (sqrtE (m21 ^ 2 + m22 ^ 2)) (\<lambda>s.
     let pitch = 180 / pi * atan2 (- m20) s in
     bindE (entry pose_mat 2 1) (\<lambda>n21.
     bindE (entry pose_mat 2 2) (\<lambda>n22.
     let roll = 180 / pi * atan2 n21 n22 in
     bindE (entry pose_mat 0 3) (\<lambda>x.
     bindE (entry pose_mat 1 3) (\<lambda>y.
     bindE (entry pose_mat 2 3) (\<lambda>z.
     Inr [x, y, z, yaw, pitch, roll])))))))))))"

text \<open>The quaternion scalar \<open>r_w = math.sqrt(abs(1 + m00 + m11 + m22)) / 2\<close>.\<close>

definition quat_w :: "real list list \<Rightarrow> error + real" where
  "quat_w pose_mat =
     bindE (entry pose_mat 0 0) (\<lambda>m00.
     bindE (entry pose_mat 1 1) (\<lambda>m11.
     bindE (entry pose_mat 2 2) (\<lambda>m22.
     bindE (sqrtE \<bar>1 + m00 + m11 + m22\<bar>) (\<lambda>s.
     divE s 2))))"

text \<open>A quaternion vector component \<open>(pose_mat[a][b] - pose_mat[c][d]) / (4 * r_w)\<close>.\<close>

definition quat_comp :: "real list list \<Rightarrow> nat \<Rightarrow> nat \<Rightarrow> nat \<Rightarrow> nat \<Rightarrow> real \<Rightarrow> error + real" where
  "quat_comp pose_mat a b c d r_w =
     bindE (entry pose_mat a b) (\<lambda>p.
     bindE (entry pose_mat c d) (\<lambda>q.
     divE (p - q) (4 * r_w)))"

definition convert_to_quaternion :: "real list list \<Rightarrow> error + real list" where
  "convert_to_quaternion pose_mat =
     bindE (quat_w pose_mat) (\<lambda>r_w.
     bindE (quat_comp pose_mat 2 1 1 2 r_w) (\<lambda>r_x.
     bindE (quat_comp pose_mat 0 2 2 0 r_w) (\<lambda>r_y.
     bindE (quat_comp pose_mat 1 0 0 1 r_w) (\<lambda>r_z.
     bindE (entry pose_mat 0 3) (\<lambda>x.
     bindE (entry pose_mat 1 3) (\<lambda>y.
     bindE (entry pose_mat 2 3) (\<lambda>z.
     Inr [x, y, z, r_w, r_x, r_y, r_z])))))))"

text \<open>
  The conversion as the specification words it: translation from column 3 of each row,
  the three angles by the two-argument arctangent, scaled by \<open>180 / pi\<close>.
\<close>

definition euler_spec :: "real list list \<Rightarrow> real list" where
  "euler_spec m =
     [m ! 0 ! 3, m ! 1 ! 3, m ! 2 ! 3,
      (180 / pi) * atan2 (m ! 1 ! 0) (m ! 0 ! 0),
      (180 / pi) * atan2 (- (m ! 2 ! 0)) (sqrt ((m ! 2 ! 1) ^ 2 + (m ! 2 ! 2) ^ 2)),
      (180 / pi) * atan2 (m ! 2 ! 1) (m ! 2 ! 2)]"

section \<open>Pose sample buffer (core/pose_buffer.py)\<close>

record PoseSampleBuffer =
  buf_i :: nat
  buf_index :: "nat list"
  buf_time :: "real list"
  buf_x :: "real list"
  buf_y :: "real list"
  buf_z :: "real list"
  buf_yaw :: "real list"
  buf_pitch :: "real list"
  buf_roll :: "real list"
  buf_r_w :: "real list"
  buf_r_x :: "real list"
  buf_r_y :: "real list"
  buf_r_z :: "real list"

text \<open>\<open>PoseSampleBuffer()\<close>\<close>

definition PoseSampleBuffer_init :: PoseSampleBuffer where
  "PoseSampleBuffer_init =
     \<lparr>buf_i = 0, buf_index = [], buf_time = [], buf_x = [], buf_y = [], buf_z = [],
      buf_yaw = [], buf_pitch = [], buf_roll = [],
      buf_r_w = [], buf_r_x = [], buf_r_y = [], buf_r_z = []\<rparr>"

text \<open>
  Statements run in sequence on the buffer; the first exception stops the sequence and the
  buffer stays as the statements before it left it.
\<close>

type_synonym 's stmt = "'s \<Rightarrow> error option \<times> 's"

definition seq :: "'s stmt \<Rightarrow> 's stmt \<Rightarrow> 's stmt" where
  "seq f g s = (case f s of (None, s') \<Rightarrow> g s' | (Some e, s') \<Rightarrow> (Some e, s'))"

text \<open>\<open>self.col.append(expr)\<close>: the expression is evaluated first.\<close>

definition push :: "error + real \<Rightarrow> (real \<Rightarrow> 's \<Rightarrow> 's) \<Rightarrow> 's stmt" where
  "push r upd s = (case r of Inl e \<Rightarrow> (Some e, s) | Inr v \<Rightarrow> (None, upd v s))"

text \<open>\<open>v = expr\<close>, then the statements that use the local variable \<open>v\<close>.\<close>

definition assign :: "error + real \<Rightarrow> (real \<Rightarrow> 's stmt) \<Rightarrow> 's stmt" where
  "assign r k s = (case r of Inl e \<Rightarrow> (Some e, s) | Inr v \<Rightarrow> k v s)"

text \<open>\<open>180 / math.pi * math.atan(pose_mat[1][0] / pose_mat[0][0])\<close>\<close>

definition yaw_expr :: "real list list \<Rightarrow> error + real" where
  "yaw_expr pose_mat =
     bindE (entry pose_mat 1 0) (\<lambda>m10.
     bindE (entry pose_mat 0 0) (\<lambda>m00.
     bindE (divE m10 m00) (\<lambda>q.
     Inr (180 / pi * arctan q))))"

text \<open>
  \<open>180 / math.pi * math.atan(-1 * pose_mat[2][0] /
     math.sqrt(pow(pose_mat[2][1], 2) + math.pow(pose_mat[2][2], 2)))\<close>
\<close>

definition pitch_expr :: "real list list \<Rightarrow> error + real" where
  "pitch_expr pose_mat =
     bindE (entry pose_mat 2 0) (\<lambda>m20.
     bindE (entry pose_mat 2 1) (\<lambda>m21.
     bindE (entry pose_mat 2 2) (\<lambda>m22.
     bindE (sqrtE (m21 ^ 2 + m22 ^ 2)) (\<lambda>s.
     bindE (divE (- 1 * m20) s) (\<lambda>q.
     Inr (180 / pi * arctan q))))))"

text \<open>\<open>180 / math.pi * math.atan(pose_mat[2][1] / pose_mat[2][2])\<close>\<close>

definition roll_expr :: "real list list \<Rightarrow> error + real" where
  "roll_expr pose_mat =
     bindE (entry pose_mat 2 1) (\<lambda>m21.
     bindE (entry pose_mat 2 2) (\<lambda>m22.
     bindE (divE m21 m22) (\<lambda>q.
     Inr (180 / pi * arctan q))))"

text \<open>The quaternion part of \<open>append\<close>, once \<open>r_w\<close> is computed.\<close>

definition append_quat :: "real list list \<Rightarrow> real \<Rightarrow> PoseSampleBuffer stmt" where
  "append_quat pose_mat r_w =
     seq (push (Inr r_w) (\<lambda>v b. b\<lparr>buf_r_w := buf_r_w b @ [v]\<rparr>))
    (seq (push (quat_comp pose_mat 2 1 1 2 r_w) (\<lambda>v b. b\<lparr>buf_r_x := buf_r_x b @ [v]\<rparr>))
    (seq (push (quat_comp pose_mat 0 2 2 0 r_w) (\<lambda>v b. b\<lparr>buf_r_y := buf_r_y b @ [v]\<rparr>))
         (push (quat_comp pose_mat 1 0 0 1 r_w) (\<lambda>v b. b\<lparr>buf_r_z := buf_r_z b @ [v]\<rparr>))))"

text \<open>\<open>PoseSampleBuffer.append(pose_mat, t)\<close>\<close>

definition append_sample :: "real list list \<Rightarrow> real \<Rightarrow> PoseSampleBuffer stmt" where
  "append_sample pose_mat t =
     seq (push (Inr t) (\<lambda>v b. b\<lparr>buf_time := buf_time b @ [v]\<rparr>))
    (seq (push (entry pose_mat 0 3) (\<lambda>v b. b\<lparr>buf_x := buf_x b @ [v]\<rparr>))
    (seq (push (entry pose_mat 1 3) (\<lambda>v b. b\<lparr>buf_y := buf_y b @ [v]\<rparr>))
    (seq (push (entry pose_mat 2 3) (\<lambda>v b. b\<lparr>buf_z := buf_z b @ [v]\<rparr>))
    (seq (push (yaw_expr pose_mat) (\<lambda>v b. b\<lparr>buf_yaw := buf_yaw b @ [v]\<rparr>))
    (seq (push (pitch_expr pose_mat) (\<lambda>v b. b\<lparr>buf_pitch := buf_pitch b @ [v]\<rparr>))
    (seq (push (roll_expr pose_mat) (\<lambda>v b. b\<lparr>buf_roll := buf_roll b @ [v]\<rparr>))
         (assign (quat_w pose_mat) (append_quat pose_mat))))))))"

text \<open>\<open>PoseSampleBuffer.clear()\<close>\<close>

definition clear :: "PoseSampleBuffer stmt" where
  "clear b =
     (None, b\<lparr>buf_i := 0, buf_index := [], buf_time := [], buf_x := [], buf_y := [],
              buf_z := [], buf_yaw := [], buf_pitch := [], buf_roll := [],
              buf_r_w := [], buf_r_x := [], buf_r_y := [], buf_r_z := []\<rparr>)"

text \<open>\<open>len(buffer)\<close>\<close>

definition buf_len :: "PoseSampleBuffer \<Rightarrow> nat" where
  "buf_len b = length (buf_time b)"

text \<open>
  A caller's sequence of calls on one buffer. A caller that catches an exception goes on
  with the buffer as the failed call left it, so the run records each call's outcome and
  continues.
\<close>

datatype buffer_call = Append "real list list" real | Clear

fun call :: "buffer_call \<Rightarrow> PoseSampleBuffer stmt" where
  "call (Append pose_mat t) b = append_sample pose_mat t b"
| "call Clear b = clear b"

fun run_calls :: "buffer_call list \<Rightarrow> PoseSampleBuffer \<Rightarrow> error option list \<times> PoseSampleBuffer" where
  "run_calls [] b = ([], b)"
| "run_calls (c # cs) b =
     (case call c b of (r, b') \<Rightarrow>
        (case run_calls cs b' of (rs, b'') \<Rightarrow> (r # rs, b'')))"

text \<open>The eleven derived-field columns have one length.\<close>

definition lock_step :: "PoseSampleBuffer \<Rightarrow> bool" where
  "lock_step b =
     (length (buf_x b) = length (buf_time b) \<and>
      length (buf_y b) = length (buf_time b) \<and>
      length (buf_z b) = length (buf_time b) \<and>
      length (buf_yaw b) = length (buf_time b) \<and>
      length (buf_pitch b) = length (buf_time b) \<and>
      length (buf_roll b) = length (buf_time b) \<and>
      length (buf_r_w b) = length (buf_time b) \<and>
      length (buf_r_x b) = length (buf_time b) \<and>
      length (buf_r_y b) = length (buf_time b) \<and>
      length (buf_r_z b) = length (buf_time b))"

section \<open>Device handle (core/device.py)\<close>

text \<open>
  One entry of the backend's pose snapshot (\<open>TrackedDevicePose_t\<close> of OpenVR), with the
  fields the code reads.
\<close>

record TrackedDevicePose =
  bDeviceIsConnected :: bool
  bPoseIsValid :: bool
  mDeviceToAbsoluteTracking :: "real list list"
  vVelocity :: "real list"
  vAngularVelocity :: "real list"

text \<open>
  \<open>TrackedDevice\<close>; \<open>reference\<close> tells the subclass \<open>TrackingReference\<close>. The backend
  object \<open>self.vr\<close> is shared by all handles: the functions below take what it answers as
  a parameter.
\<close>

record TrackedDevice =
  device_class :: string
  index :: nat
  reference :: bool

text \<open>
  The pose accessors. \<open>vr_pose\<close> is the snapshot \<open>get_pose(self.vr)\<close> returns when the
  caller passes no snapshot. The result is \<open>None\<close> for "no data".
\<close>

definition pose_or_fetch :: "TrackedDevicePose list \<Rightarrow> TrackedDevicePose list option \<Rightarrow> TrackedDevicePose list" where
  "pose_or_fetch vr_pose pose = (case pose of None \<Rightarrow> vr_pose | Some p \<Rightarrow> p)"

definition get_pose_euler ::
  "TrackedDevicePose list \<Rightarrow> TrackedDevice \<Rightarrow> TrackedDevicePose list option \<Rightarrow> error + real list option" where
  "get_pose_euler vr_pose self pose =
     bindE (getitem (pose_or_fetch vr_pose pose) (index self)) (\<lambda>p.
       if bPoseIsValid p
       then bindE (convert_to_euler (mDeviceToAbsoluteTracking p)) (\<lambda>r. Inr (Some r))
       else Inr None)"

definition get_pose_matrix ::
  "TrackedDevicePose list \<Rightarrow> TrackedDevice \<Rightarrow> TrackedDevicePose list option \<Rightarrow> error + real list list option" where
  "get_pose_matrix vr_pose self pose =
     bindE (getitem (pose_or_fetch vr_pose pose) (index self)) (\<lambda>p.
       if bPoseIsValid p then Inr (Some (mDeviceToAbsoluteTracking p)) else Inr None)"

definition get_velocity ::
  "TrackedDevicePose list \<Rightarrow> TrackedDevice \<Rightarrow> TrackedDevicePose list option \<Rightarrow> error + real list option" where
  "get_velocity vr_pose self pose =
     bindE (getitem (pose_or_fetch vr_pose pose) (index self)) (\<lambda>p.
       if bPoseIsValid p then Inr (Some (vVelocity p)) else Inr None)"

definition get_angular_velocity ::
  "TrackedDevicePose list \<Rightarrow> TrackedDevice \<Rightarrow> TrackedDevicePose list option \<Rightarrow> error + real list option" where
  "get_angular_velocity vr_pose self pose =
     bindE (getitem (pose_or_fetch vr_pose pose) (index self)) (\<lambda>p.
       if bPoseIsValid p then Inr (Some (vAngularVelocity p)) else Inr None)"

definition get_pose_quaternion ::
  "TrackedDevicePose list \<Rightarrow> TrackedDevice \<Rightarrow> TrackedDevicePose list option \<Rightarrow> error + real list option" where
  "get_pose_quaternion vr_pose self pose =
     bindE (getitem (pose_or_fetch vr_pose pose) (index self)) (\<lambda>p.
       if bPoseIsValid p
       then bindE (convert_to_quaternion (mDeviceToAbsoluteTracking p)) (\<lambda>r. Inr (Some r))
       else Inr None)"

text \<open>
  \<open>TrackedDevice.sample\<close>. The world outside is two sequences: \<open>clock k\<close> is what the
  \<open>k\<close>-th call of \<open>time.time()\<close> returns (call 0 reads \<open>sample_start\<close>, iteration \<open>j\<close>
  makes the calls \<open>3 * j + 1\<close>, \<open>3 * j + 2\<close> and \<open>3 * j + 3\<close>), and \<open>poses j\<close> is the
  snapshot the backend returns in iteration \<open>j\<close>. \<open>time.sleep\<close> changes nothing but later
  clock readings. An exception leaves the loop and the buffer is not returned.
\<close>

fun sample_loop ::
  "(nat \<Rightarrow> real) \<Rightarrow> (nat \<Rightarrow> TrackedDevicePose list) \<Rightarrow> TrackedDevice \<Rightarrow> real \<Rightarrow> real \<Rightarrow>
   nat \<Rightarrow> nat \<Rightarrow> PoseSampleBuffer \<Rightarrow> error + PoseSampleBuffer" where
  "sample_loop clock poses self sample_start interval 0 j rtn = Inr rtn"
| "sample_loop clock poses self sample_start interval (Suc n) j rtn =
     (let start = clock (3 * j + 1);
          pose = poses j
      in bindE (getitem pose (index self)) (\<lambda>p.
           case append_sample (mDeviceToAbsoluteTracking p) (clock (3 * j + 2) - sample_start) rtn of
             (Some e, _) \<Rightarrow> Inl e
           | (None, rtn') \<Rightarrow>
               (let sleep_time = interval - (clock (3 * j + 3) - start)
                in sample_loop clock poses self sample_start interval n (Suc j) rtn')))"

definition sample ::
  "(nat \<Rightarrow> real) \<Rightarrow> (nat \<Rightarrow> TrackedDevicePose list) \<Rightarrow> TrackedDevice \<Rightarrow> int \<Rightarrow> real \<Rightarrow>
   error + PoseSampleBuffer" where
  "sample clock poses self num_samples sample_rate =
     bindE (divE 1 sample_rate) (\<lambda>interval.
       let rtn = PoseSampleBuffer_init;
           sample_start = clock 0
       in sample_loop clock poses self sample_start interval (nat num_samples) 0 rtn)"

section \<open>Device registry (core/tracker.py)\<close>

text \<open>The device classes of OpenVR, as \<open>getTrackedDeviceClass\<close> reports them.\<close>

datatype TrackedDeviceClass =
    TrackedDeviceClass_Invalid
  | TrackedDeviceClass_HMD
  | TrackedDeviceClass_Controller
  | TrackedDeviceClass_GenericTracker
  | TrackedDeviceClass_TrackingReference
  | TrackedDeviceClass_DisplayRedirect
  | TrackedDeviceClass_Max

datatype EventType =
    VREvent_TrackedDeviceActivated
  | VREvent_TrackedDeviceDeactivated
  | VREvent_Other

record VREvent =
  eventType :: EventType
  trackedDeviceIndex :: nat

text \<open>
  The mutable fields of \<open>Tracker\<close>: the per-class name lists, the name table and the
  slot-index map.
\<close>

record Tracker =
  object_names :: "string \<rightharpoonup> string list"
  devices :: "string \<rightharpoonup> TrackedDevice"
  device_index_map :: "nat \<rightharpoonup> string"

text \<open>The fields as \<open>__init__\<close> sets them before it looks at the slots.\<close>

definition Tracker_fields :: Tracker where
  "Tracker_fields =
     \<lparr>object_names = [''Tracking Reference'' \<mapsto> [], ''HMD'' \<mapsto> [], ''Controller'' \<mapsto> [],
                      ''Tracker'' \<mapsto> []],
      devices = Map.empty,
      device_index_map = Map.empty\<rparr>"

text \<open>
  One branch of \<open>add_tracked_device\<close>: the four branches differ in the class key, the
  name prefix and the handle type only.
  \<^verbatim>\<open>
    device_name = prefix + str(len(self.object_names[key]) + 1)
    self.object_names[key].append(device_name)
    self.devices[device_name] = TrackedDevice(self.vr, i, key)
    self.device_index_map[i] = device_name
  \<close>
\<close>

definition add_as :: "string \<Rightarrow> string \<Rightarrow> bool \<Rightarrow> nat \<Rightarrow> Tracker stmt" where
  "add_as key prefix ref i self =
     (case object_names self key of
        None \<Rightarrow> (Some (KeyError key), self)
      | Some names \<Rightarrow>
          (let device_name = prefix @ str (length names + 1)
           in (None,
               self\<lparr>object_names := (object_names self)(key \<mapsto> names @ [device_name]),
                    devices := (devices self)(device_name \<mapsto>
                       \<lparr>device_class = key, index = i, reference = ref\<rparr>),
                    device_index_map := (device_index_map self)(i \<mapsto> device_name)\<rparr>)))"

text \<open>\<open>Tracker.add_tracked_device\<close>; \<open>vr_class\<close> is the backend's \<open>getTrackedDeviceClass\<close>.\<close>

definition add_tracked_device :: "(nat \<Rightarrow> TrackedDeviceClass) \<Rightarrow> nat \<Rightarrow> Tracker stmt" where
  "add_tracked_device vr_class tracked_device_index self =
     (let i = tracked_device_index;
          dev_class = vr_class i
      in if dev_class = TrackedDeviceClass_Controller
           then add_as ''Controller'' ''controller_'' False i self
         else if dev_class = TrackedDeviceClass_HMD
           then add_as ''HMD'' ''hmd_'' False i self
         else if dev_class = TrackedDeviceClass_GenericTracker
           then add_as ''Tracker'' ''tracker_'' False i self
         else if dev_class = TrackedDeviceClass_TrackingReference
           then add_as ''Tracking Reference'' ''tracking_reference_'' True i self
         else (None, self))"

text \<open>
  \<open>Tracker.remove_tracked_device\<close>. \<open>list.remove\<close> deletes the first occurrence and
  raises \<open>ValueError\<close> when there is none. The message of the final \<open>Exception\<close> is
  \<open>"Tracked device index {} not valid. Not removing."\<close> with the index filled in.
\<close>

definition remove_tracked_device :: "nat \<Rightarrow> Tracker stmt" where
  "remove_tracked_device tracked_device_index self =
     (case device_index_map self tracked_device_index of
        Some device_name \<Rightarrow>
          (case devices self device_name of
             None \<Rightarrow> (Some (KeyError device_name), self)
           | Some dev \<Rightarrow>
               (case object_names self (device_class dev) of
                  None \<Rightarrow> (Some (KeyError (device_class dev)), self)
                | Some names \<Rightarrow>
                    if device_name \<in> set names
                    then (None,
                          self\<lparr>object_names :=
                                 (object_names self)(device_class dev \<mapsto> remove1 device_name names),
                               device_index_map :=
                                 (device_index_map self)(tracked_device_index := None),
                               devices := (devices self)(device_name := None)\<rparr>)
                    else (Some ValueError, self)))
      | None \<Rightarrow>
          (Some (Exception (''Tracked device index '' @ str tracked_device_index @
                            '' not valid. Not removing.'')),
           self))"

text \<open>
  \<open>Tracker.rename_device\<close>. \<open>dict.pop\<close> without a default raises \<open>KeyError\<close> on a
  missing key, before anything is assigned. The loop replaces every occurrence of the old
  name in the list of the handle's class.
\<close>

definition rename_device :: "string \<Rightarrow> string \<Rightarrow> Tracker stmt" where
  "rename_device old_device_name new_device_name self =
     (case devices self old_device_name of
        None \<Rightarrow> (Some (KeyError old_device_name), self)
      | Some dev \<Rightarrow>
          (let self1 = self\<lparr>devices :=
                 ((devices self)(old_device_name := None))(new_device_name \<mapsto> dev)\<rparr>
           in case object_names self1 (device_class dev) of
                None \<Rightarrow> (Some (KeyError (device_class dev)), self1)
              | Some names \<Rightarrow>
                  (None,
                   self1\<lparr>object_names := (object_names self1)(device_class dev \<mapsto>
                      map (\<lambda>n. if n = old_device_name then new_device_name else n) names)\<rparr>)))"

text \<open>
  \<open>Tracker.poll_vr_events\<close>: the events the backend's queue holds, in order. An exception
  leaves the loop.
\<close>

fun poll_vr_events :: "(nat \<Rightarrow> TrackedDeviceClass) \<Rightarrow> VREvent list \<Rightarrow> Tracker stmt" where
  "poll_vr_events vr_class [] self = (None, self)"
| "poll_vr_events vr_class (event # queue) self =
     seq (\<lambda>s. if eventType event = VREvent_TrackedDeviceActivated
                 then add_tracked_device vr_class (trackedDeviceIndex event) s
               else if eventType event = VREvent_TrackedDeviceDeactivated
                 then (if device_index_map s (trackedDeviceIndex event) \<noteq> None
                       then remove_tracked_device (trackedDeviceIndex event) s
                       else (None, s))
               else (None, s))
         (poll_vr_events vr_class queue) self"

text \<open>An entry of \<open>config['devices']\<close>.\<close>

record device_config =
  cfg_serial :: string
  cfg_name :: string
  cfg_type :: string

text \<open>
  The body of the inner loop of \<open>__init__\<close> with a configuration file, for slot \<open>i\<close>
  with serial number \<open>device_serial\<close>.
\<close>

fun config_loop :: "string \<Rightarrow> nat \<Rightarrow> device_config list \<Rightarrow> Tracker stmt" where
  "config_loop device_serial i [] self = (None, self)"
| "config_loop device_serial i (device # config) self =
     (if device_serial = cfg_serial device
      then (let device_name = cfg_name device
            in case object_names self (cfg_type device) of
                 None \<Rightarrow> (Some (KeyError (cfg_type device)), self)
               | Some names \<Rightarrow>
                   config_loop device_serial i config
                     (self\<lparr>object_names :=
                             (object_names self)(cfg_type device \<mapsto> names @ [device_name]),
                           devices := (devices self)(device_name \<mapsto>
                             \<lparr>device_class = cfg_type device, index = i,
                              reference = (cfg_type device = ''Tracking Reference'')\<rparr>)\<rparr>))
      else config_loop device_serial i config self)"

text \<open>
  The loop of \<open>__init__\<close> over the slots \<open>range(openvr.k_unMaxTrackedDeviceCount)\<close>.
  \<open>vr_serial\<close> is the backend's serial-number property, \<open>poses\<close> the snapshot taken at
  construction, \<open>config\<close> the device list of the loaded configuration file, if one is
  given.
\<close>

fun init_loop ::
  "(nat \<Rightarrow> TrackedDeviceClass) \<Rightarrow> (nat \<Rightarrow> string) \<Rightarrow> TrackedDevicePose list \<Rightarrow>
   device_config list option \<Rightarrow> nat list \<Rightarrow> Tracker stmt" where
  "init_loop vr_class vr_serial poses config [] self = (None, self)"
| "init_loop vr_class vr_serial poses config (i # slots) self =
     (case getitem poses i of
        Inl e \<Rightarrow> (Some e, self)
      | Inr p \<Rightarrow>
          seq (\<lambda>s. if bDeviceIsConnected p
                    then (case config of
                            Some devs \<Rightarrow> config_loop (vr_serial i) i devs s
                          | None \<Rightarrow> add_tracked_device vr_class i s)
                    else (None, s))
              (init_loop vr_class vr_serial poses config slots) self)"

text \<open>The number of device slots of OpenVR, \<open>openvr.k_unMaxTrackedDeviceCount\<close>.\<close>

definition k_unMaxTrackedDeviceCount :: nat where
  "k_unMaxTrackedDeviceCount = 64"

text \<open>\<open>Tracker(configfile_path)\<close>, once the backend is up and the file is read.\<close>

definition Tracker_init ::
  "(nat \<Rightarrow> TrackedDeviceClass) \<Rightarrow> (nat \<Rightarrow> string) \<Rightarrow> TrackedDevicePose list \<Rightarrow>
   device_config list option \<Rightarrow> error option \<times> Tracker" where
  "Tracker_init vr_class vr_serial poses config =
     init_loop vr_class vr_serial poses config [0..<k_unMaxTrackedDeviceCount] Tracker_fields"

text \<open>
  The registry invariant, as the specification words it: every tracked slot index maps to
  a name of the name table, and the name list of each class holds exactly the names whose
  handle has that class.
\<close>

definition names_of_class :: "Tracker \<Rightarrow> string \<Rightarrow> string set" where
  "names_of_class self c = {n. \<exists>dev. devices self n = Some dev \<and> device_class dev = c}"

definition class_list :: "Tracker \<Rightarrow> string \<Rightarrow> string list" where
  "class_list self c = (case object_names self c of None \<Rightarrow> [] | Some names \<Rightarrow> names)"

definition registry_inv :: "Tracker \<Rightarrow> bool" where
  "registry_inv self =
     (ran (device_index_map self) \<subseteq> dom (devices self) \<and>
      set (class_list self ''Tracking Reference'') = names_of_class self ''Tracking Reference'' \<and>
      set (class_list self ''HMD'') = names_of_class self ''HMD'' \<and>
      set (class_list self ''Controller'') = names_of_class self ''Controller'' \<and>
      set (class_list self ''Tracker'') = names_of_class self ''Tracker'')"

section \<open>Example inputs\<close>

text \<open>
  A tracked pose at rest at the origin, the pose of an empty slot, a handle on slot 0, and
  hot-plug events: three controllers plugged in and two unplugged, in the order
  slot 0 on, slot 1 on, slot 0 off, slot 2 on, slot 1 off.
\<close>

definition still_pose :: TrackedDevicePose where
  "still_pose = \<lparr>bDeviceIsConnected = True, bPoseIsValid = True,
     mDeviceToAbsoluteTracking = identity, vVelocity = [0, 0, 0], vAngularVelocity = [0, 0, 0]\<rparr>"

definition absent_pose :: TrackedDevicePose where
  "absent_pose = \<lparr>bDeviceIsConnected = False, bPoseIsValid = False,
     mDeviceToAbsoluteTracking = identity, vVelocity = [0, 0, 0], vAngularVelocity = [0, 0, 0]\<rparr>"

definition hmd0 :: TrackedDevice where
  "hmd0 = \<lparr>device_class = ''HMD'', index = 0, reference = False\<rparr>"

definition activated :: "nat \<Rightarrow> VREvent" where
  "activated i = \<lparr>eventType = VREvent_TrackedDeviceActivated, trackedDeviceIndex = i\<rparr>"

definition deactivated :: "nat \<Rightarrow> VREvent" where
  "deactivated i = \<lparr>eventType = VREvent_TrackedDeviceDeactivated, trackedDeviceIndex = i\<rparr>"

definition replug_events :: "VREvent list" where
  "replug_events = [activated 0, activated 1, deactivated 0, activated 2, deactivated 1]"

definition replug_state :: Tracker where
  "replug_state = snd (poll_vr_events (\<lambda>i. TrackedDeviceClass_Controller) replug_events Tracker_fields)"

section \<open>Expressions on a well-formed pose matrix\<close>

lemma entry_3x4:
  assumes "is_3x4 m" "i < 3" "j < 4"
  shows "entry m i j = Inr (m ! i ! j)"
  using assms by (simp add: is_3x4_def entry_def getitem_def bindE_def list_all_length)

lemma sqrtE_sum_squares: "sqrtE (a ^ 2 + b ^ 2) = Inr (sqrt (a ^ 2 + b ^ 2))"
  by (simp add: sqrtE_def not_less)

lemma is_3x4_identity: "is_3x4 identity"
  by (simp add: is_3x4_def identity_def)

lemma convert_to_euler_3x4:
  assumes "is_3x4 m"
  shows "convert_to_euler m = Inr (euler_spec m)"
  using assms
  by (simp add: convert_to_euler_def euler_spec_def entry_3x4 sqrtE_sum_squares bindE_def Let_def)

lemma euler_spec_identity: "euler_spec identity = [0, 0, 0, 0, 0, 0]"
  by (simp add: euler_spec_def identity_def atan2_def)

section \<open>Statements that return normally\<close>

lemma seq_None: "seq f g s = (None, s') \<longleftrightarrow> (\<exists>s1. f s = (None, s1) \<and> g s1 = (None, s'))"
  by (auto simp: seq_def split: prod.splits option.splits)

lemma push_None: "push r upd s = (None, s') \<longleftrightarrow> (\<exists>v. r = Inr v \<and> s' = upd v s)"
  by (auto simp: push_def split: sum.splits)

lemma assign_None: "assign r k s = (None, s') \<longleftrightarrow> (\<exists>v. r = Inr v \<and> k v s = (None, s'))"
  by (auto simp: assign_def split: sum.splits)

lemma append_sample_None:
  assumes "append_sample m t b = (None, b')"
  shows "buf_time b' = buf_time b @ [t]"
    and "length (buf_x b') = Suc (length (buf_x b))"
    and "length (buf_y b') = Suc (length (buf_y b))"
    and "length (buf_z b') = Suc (length (buf_z b))"
    and "length (buf_yaw b') = Suc (length (buf_yaw b))"
    and "length (buf_pitch b') = Suc (length (buf_pitch b))"
    and "length (buf_roll b') = Suc (length (buf_roll b))"
    and "length (buf_r_w b') = Suc (length (buf_r_w b))"
    and "length (buf_r_x b') = Suc (length (buf_r_x b))"
    and "length (buf_r_y b') = Suc (length (buf_r_y b))"
    and "length (buf_r_z b') = Suc (length (buf_r_z b))"
  using assms
  by (auto simp: append_sample_def append_quat_def seq_None push_None assign_None)

lemma append_sample_lock_step:
  assumes "append_sample m t b = (None, b')" "lock_step b"
  shows "lock_step b'"
  using append_sample_None [OF assms(1)] assms(2)
  by (simp add: lock_step_def)

lemma clear_lock_step: "lock_step (snd (clear b))"
  by (simp add: clear_def lock_step_def)

lemma run_calls_keeps_lock_step:
  "lock_step b \<Longrightarrow> list_all (\<lambda>r. r = None) (fst (run_calls cs b)) \<Longrightarrow>
   lock_step (snd (run_calls cs b))"
proof (induction cs arbitrary: b)
  case Nil
  then show ?case by simp
next
  case (Cons c cs)
  obtain r b1 where c: "call c b = (r, b1)" by (cases "call c b")
  from Cons.prems(2) c have r: "r = None"
    and rest: "list_all (\<lambda>r. r = None) (fst (run_calls cs b1))"
    by (auto split: prod.splits)
  have "lock_step b1"
  proof (cases c)
    case (Append m t)
    with c r Cons.prems(1) show ?thesis by (auto intro: append_sample_lock_step)
  next
    case Clear
    with c clear_lock_step [of b] show ?thesis by simp
  qed
  from Cons.IH [OF this rest] c show ?case by (cases "run_calls cs b1") simp
qed

text \<open>
  When \<open>append\<close> returns normally: no divisor is zero. The divisors are \<open>m[0][0]\<close>,
  \<open>sqrt(m[2][1]^2 + m[2][2]^2)\<close>, \<open>m[2][2]\<close> and \<open>4 * r_w\<close>.
\<close>

lemma append_sample_normal:
  assumes "is_3x4 m" "m ! 0 ! 0 \<noteq> 0" "m ! 2 ! 2 \<noteq> 0"
    "1 + m ! 0 ! 0 + m ! 1 ! 1 + m ! 2 ! 2 \<noteq> 0"
  shows "append_sample m t b = (None, b\<lparr>buf_time := buf_time b @ [t],
            buf_x := buf_x b @ [m ! 0 ! 3], buf_y := buf_y b @ [m ! 1 ! 3],
            buf_z := buf_z b @ [m ! 2 ! 3],
            buf_yaw := buf_yaw b @ [180 / pi * arctan (m ! 1 ! 0 / m ! 0 ! 0)],
            buf_pitch := buf_pitch b @
              [180 / pi * arctan (- 1 * m ! 2 ! 0 / sqrt ((m ! 2 ! 1) ^ 2 + (m ! 2 ! 2) ^ 2))],
            buf_roll := buf_roll b @ [180 / pi * arctan (m ! 2 ! 1 / m ! 2 ! 2)],
            buf_r_w := buf_r_w b @ [sqrt \<bar>1 + m ! 0 ! 0 + m ! 1 ! 1 + m ! 2 ! 2\<bar> / 2],
            buf_r_x := buf_r_x b @
              [(m ! 2 ! 1 - m ! 1 ! 2) / (4 * (sqrt \<bar>1 + m ! 0 ! 0 + m ! 1 ! 1 + m ! 2 ! 2\<bar> / 2))],
            buf_r_y := buf_r_y b @
              [(m ! 0 ! 2 - m ! 2 ! 0) / (4 * (sqrt \<bar>1 + m ! 0 ! 0 + m ! 1 ! 1 + m ! 2 ! 2\<bar> / 2))],
            buf_r_z := buf_r_z b @
              [(m ! 1 ! 0 - m ! 0 ! 1) / (4 * (sqrt \<bar>1 + m ! 0 ! 0 + m ! 1 ! 1 + m ! 2 ! 2\<bar> / 2))]\<rparr>)"
proof -
  have s: "sqrt ((m ! 2 ! 1) ^ 2 + (m ! 2 ! 2) ^ 2) \<noteq> 0"
    using assms(3) by (simp add: sum_power2_eq_zero_iff)
  show ?thesis
    using assms s
    by (simp add: append_sample_def append_quat_def seq_def push_def assign_def yaw_expr_def
        pitch_expr_def roll_expr_def quat_w_def quat_comp_def entry_3x4 sqrtE_def divE_def
        bindE_def not_less)
qed

lemma append_sample_identity: "fst (append_sample identity t b) = None"
proof -
  have "identity ! 0 ! 0 \<noteq> 0" "identity ! 2 ! 2 \<noteq> 0"
    "1 + identity ! 0 ! 0 + identity ! 1 ! 1 + identity ! 2 ! 2 \<noteq> 0"
    by (simp_all add: identity_def)
  from append_sample_normal [OF is_3x4_identity this] show ?thesis by simp
qed

section \<open>Claims on the coordinate transform and the buffer\<close>

text \<open>
  C2, as stated: after every sequence of \<open>append\<close> and \<open>clear\<close> calls the eleven columns
  have equal length, also when an \<open>append\<close> ends in an exception. It fails: on the pose
  matrix of a quarter turn about the vertical axis, \<open>m[0][0] = 0\<close>, the yaw expression
  divides by zero after \<open>time\<close>, \<open>x\<close>, \<open>y\<close> and \<open>z\<close> have grown.
\<close>

theorem append_abnormal_breaks_lock_step:
  "run_calls [Append rot_z_90 0] PoseSampleBuffer_init =
     ([Some ZeroDivisionError],
      PoseSampleBuffer_init\<lparr>buf_time := [0], buf_x := [0], buf_y := [0], buf_z := [0]\<rparr>)
   \<and> \<not> lock_step (snd (run_calls [Append rot_z_90 0] PoseSampleBuffer_init))"
  by (simp add: rot_z_90_def append_sample_def seq_def push_def yaw_expr_def entry_def
      getitem_def bindE_def divE_def PoseSampleBuffer_init_def lock_step_def)

text \<open>
  C2, amended: after every sequence of \<open>append\<close> and \<open>clear\<close> calls on a fresh buffer in
  which every call returns normally, the eleven columns have equal length.
\<close>

theorem normal_calls_keep_lock_step:
  "list_all (\<lambda>r. r = None) (fst (run_calls cs PoseSampleBuffer_init)) \<Longrightarrow>
   lock_step (snd (run_calls cs PoseSampleBuffer_init))"
  by (rule run_calls_keeps_lock_step) (simp_all add: lock_step_def PoseSampleBuffer_init_def)

theorem normal_calls_keep_lock_step_witness:
  "list_all (\<lambda>r. r = None)
     (fst (run_calls [Append identity 0, Clear, Append identity 1] PoseSampleBuffer_init)) \<and>
   lock_step (snd (run_calls [Append identity 0, Clear, Append identity 1] PoseSampleBuffer_init))"
proof -
  have h: "list_all (\<lambda>r. r = None)
     (fst (run_calls [Append identity 0, Clear, Append identity 1] PoseSampleBuffer_init))"
    by (simp add: split_beta append_sample_identity clear_def)
  from h normal_calls_keep_lock_step [OF h] show ?thesis by simp
qed

text \<open>
  C6: on every 3x4 pose matrix \<open>convert_to_euler\<close> returns the translation column and the
  three angles of the two-argument arctangent formulas, in degrees; on the identity matrix
  it returns six zeros.
\<close>

theorem convert_to_euler_formulas:
  "(is_3x4 m \<longrightarrow> convert_to_euler m = Inr (euler_spec m)) \<and>
   convert_to_euler identity = Inr [0, 0, 0, 0, 0, 0]"
  by (simp add: convert_to_euler_3x4 is_3x4_identity euler_spec_identity)

theorem convert_to_euler_formulas_witness:
  "is_3x4 rot_z_90 \<and> convert_to_euler rot_z_90 = Inr [0, 0, 0, 90, 0, 0]"
proof -
  have h: "is_3x4 rot_z_90" by (simp add: is_3x4_def rot_z_90_def)
  have "euler_spec rot_z_90 = [0, 0, 0, 90, 0, 0]"
    by (simp add: euler_spec_def rot_z_90_def atan2_def)
  with h convert_to_euler_formulas [of rot_z_90] show ?thesis by simp
qed

text \<open>
  C8: a 3x4 pose matrix with \<open>1 + m[0][0] + m[1][1] + m[2][2] = 0\<close> exists (a half turn
  about the vertical axis) on which \<open>r_w\<close> is zero and \<open>convert_to_quaternion\<close> ends in
  \<open>ZeroDivisionError\<close>: nothing guards the division.
\<close>

theorem convert_to_quaternion_divides_by_zero:
  "\<exists>m. is_3x4 m \<and> 1 + m ! 0 ! 0 + m ! 1 ! 1 + m ! 2 ! 2 = 0 \<and> quat_w m = Inr 0 \<and>
       convert_to_quaternion m = Inl ZeroDivisionError"
proof -
  have "is_3x4 rot_z_180 \<and>
        1 + rot_z_180 ! 0 ! 0 + rot_z_180 ! 1 ! 1 + rot_z_180 ! 2 ! 2 = 0 \<and>
        quat_w rot_z_180 = Inr 0 \<and> convert_to_quaternion rot_z_180 = Inl ZeroDivisionError"
    by (simp add: is_3x4_def rot_z_180_def convert_to_quaternion_def quat_w_def quat_comp_def
        entry_def getitem_def bindE_def sqrtE_def divE_def)
  then show ?thesis by blast
qed

section \<open>Claims on the device handle and the registry\<close>

lemma is_3x4_obtuse: "is_3x4 rot_z_obtuse"
  by (simp add: is_3x4_def rot_z_obtuse_def)

lemma euler_obtuse:
  "convert_to_euler rot_z_obtuse =
     Inr [0, 0, 0, 180 / pi * (arctan (- (4 / 3)) + pi), 0, 0]"
proof -
  have "euler_spec rot_z_obtuse = [0, 0, 0, 180 / pi * (arctan (- (4 / 3)) + pi), 0, 0]"
    by (simp add: euler_spec_def rot_z_obtuse_def atan2_def)
  with convert_to_euler_3x4 [OF is_3x4_obtuse] show ?thesis by simp
qed

lemma append_obtuse:
  "\<exists>b. append_sample rot_z_obtuse 0 PoseSampleBuffer_init = (None, b) \<and>
       buf_yaw b = [180 / pi * arctan (- (4 / 3))] \<and> buf_pitch b = [0] \<and> buf_roll b = [0]"
proof -
  have nz: "rot_z_obtuse ! 0 ! 0 \<noteq> 0" "rot_z_obtuse ! 2 ! 2 \<noteq> 0"
    "1 + rot_z_obtuse ! 0 ! 0 + rot_z_obtuse ! 1 ! 1 + rot_z_obtuse ! 2 ! 2 \<noteq> 0"
    by (simp_all add: rot_z_obtuse_def)
  show ?thesis
    unfolding append_sample_normal [OF is_3x4_obtuse nz, of 0 PoseSampleBuffer_init]
    by (simp add: PoseSampleBuffer_init_def rot_z_obtuse_def)
qed

text \<open>
  C7: a 3x4 pose matrix with \<open>m[0][0] < 0\<close> exists (the rotation about the third axis by
  the obtuse angle with cosine \<open>-3/5\<close>) on which \<open>convert_to_euler\<close> returns six values
  and \<open>PoseSampleBuffer.append\<close> stores one value in each angle column, and the returned
  angles differ from the stored ones: the yaw values are 180 degrees apart.
\<close>

theorem euler_formulas_differ:
  "\<exists>m x y z y1 p1 r1 b y2 p2 r2.
     is_3x4 m \<and> m ! 0 ! 0 < 0 \<and>
     convert_to_euler m = Inr [x, y, z, y1, p1, r1] \<and>
     append_sample m 0 PoseSampleBuffer_init = (None, b) \<and>
     buf_yaw b = [y2] \<and> buf_pitch b = [p2] \<and> buf_roll b = [r2] \<and>
     (y1, p1, r1) \<noteq> (y2, p2, r2) \<and> y1 = y2 + 180"
proof -
  from append_obtuse obtain b where
    b: "append_sample rot_z_obtuse 0 PoseSampleBuffer_init = (None, b)"
       "buf_yaw b = [180 / pi * arctan (- (4 / 3))]" "buf_pitch b = [0]" "buf_roll b = [0]"
    by blast
  have neg: "rot_z_obtuse ! 0 ! 0 < 0" by (simp add: rot_z_obtuse_def)
  have d: "180 / pi * (arctan (- (4 / 3)) + pi) = 180 / pi * arctan (- (4 / 3)) + 180"
    by (simp add: field_simps)
  then have n: "(180 / pi * (arctan (- (4 / 3)) + pi), 0::real, 0::real) \<noteq>
                (180 / pi * arctan (- (4 / 3)), 0, 0)"
    by simp
  from is_3x4_obtuse neg euler_obtuse b n d show ?thesis by blast
qed

text \<open>
  C5: when the snapshot marks the pose of the handle's slot invalid, each of the five pose
  accessors returns \<open>None\<close> and raises nothing, whether the snapshot is passed in or
  fetched from the backend.
\<close>

theorem invalid_pose_no_data:
  assumes "index self < length snap" "\<not> bPoseIsValid (snap ! index self)"
  shows "get_pose_euler vr_pose self (Some snap) = Inr None \<and>
         get_pose_matrix vr_pose self (Some snap) = Inr None \<and>
         get_velocity vr_pose self (Some snap) = Inr None \<and>
         get_angular_velocity vr_pose self (Some snap) = Inr None \<and>
         get_pose_quaternion vr_pose self (Some snap) = Inr None \<and>
         get_pose_euler snap self None = Inr None \<and>
         get_pose_matrix snap self None = Inr None \<and>
         get_velocity snap self None = Inr None \<and>
         get_angular_velocity snap self None = Inr None \<and>
         get_pose_quaternion snap self None = Inr None"
  using assms
  by (simp add: get_pose_euler_def get_pose_matrix_def get_velocity_def get_angular_velocity_def
      get_pose_quaternion_def pose_or_fetch_def getitem_def bindE_def)

theorem invalid_pose_no_data_witness:
  "index hmd0 < length [absent_pose] \<and> \<not> bPoseIsValid ([absent_pose] ! index hmd0) \<and>
   get_pose_euler [] hmd0 (Some [absent_pose]) = Inr None \<and>
   get_pose_quaternion [] hmd0 (Some [absent_pose]) = Inr None \<and>
   get_pose_matrix [absent_pose] hmd0 None = Inr None"
proof -
  have h: "index hmd0 < length [absent_pose]" "\<not> bPoseIsValid ([absent_pose] ! index hmd0)"
    by (simp_all add: hmd0_def absent_pose_def)
  from invalid_pose_no_data [OF h, of "[]"] h show ?thesis by simp
qed

lemma sample_loop_Suc_Inr:
  "sample_loop clock poses self s iv (Suc n) j rtn = Inr b \<Longrightarrow>
   \<exists>(p::TrackedDevicePose) rtn'.
     append_sample (mDeviceToAbsoluteTracking p) (clock (3 * j + 2) - s) rtn = (None, rtn') \<and>
     sample_loop clock poses self s iv n (Suc j) rtn' = Inr b"
  by (fastforce simp: bindE_def Let_def split: sum.splits prod.splits option.splits)

lemma sample_loop_time:
  "sample_loop clock poses self s iv n j rtn = Inr b \<Longrightarrow>
   buf_time b = buf_time rtn @ map (\<lambda>k. clock (3 * k + 2) - s) [j..<j + n]"
proof (induction n arbitrary: j rtn)
  case 0
  then show ?case by simp
next
  case (Suc n)
  from sample_loop_Suc_Inr [OF Suc.prems] obtain p :: TrackedDevicePose and rtn' where
    ap: "append_sample (mDeviceToAbsoluteTracking p) (clock (3 * j + 2) - s) rtn = (None, rtn')"
    and rest: "sample_loop clock poses self s iv n (Suc j) rtn' = Inr b"
    by blast
  have "[j..<j + Suc n] = j # [Suc j..<Suc j + n]"
    by (simp del: upt_Suc add: upt_conv_Cons)
  with append_sample_None(1) [OF ap] Suc.IH [OF rest] show ?case
    by (simp del: upt_Suc)
qed

lemma sample_loop_lock_step:
  "sample_loop clock poses self s iv n j rtn = Inr b \<Longrightarrow> lock_step rtn \<Longrightarrow> lock_step b"
proof (induction n arbitrary: j rtn)
  case 0
  then show ?case by simp
next
  case (Suc n)
  from sample_loop_Suc_Inr [OF Suc.prems(1)] obtain p :: TrackedDevicePose and rtn' where
    ap: "append_sample (mDeviceToAbsoluteTracking p) (clock (3 * j + 2) - s) rtn = (None, rtn')"
    and rest: "sample_loop clock poses self s iv n (Suc j) rtn' = Inr b"
    by blast
  from append_sample_lock_step [OF ap Suc.prems(2)] Suc.IH [OF rest] show ?case by blast
qed

lemma sample_time:
  assumes "sample clock poses self num_samples sample_rate = Inr b"
  shows "buf_time b = map (\<lambda>k. clock (3 * k + 2) - clock 0) [0..<nat num_samples]"
    and "lock_step b"
proof -
  from assms obtain iv where
    l: "sample_loop clock poses self (clock 0) iv (nat num_samples) 0 PoseSampleBuffer_init = Inr b"
    by (auto simp: sample_def bindE_def Let_def split: sum.splits)
  from sample_loop_time [OF l] show "buf_time b = map (\<lambda>k. clock (3 * k + 2) - clock 0) [0..<nat num_samples]"
    by (simp add: PoseSampleBuffer_init_def)
  from sample_loop_lock_step [OF l] show "lock_step b"
    by (simp add: PoseSampleBuffer_init_def lock_step_def)
qed

text \<open>
  C9: a run \<open>sample(10, 100)\<close> that returns a buffer returns one of exactly 10 entries,
  all columns in lock-step, and with non-decreasing relative timestamps when the clock
  readings are non-decreasing.
\<close>

theorem sample_ten_at_hundred:
  assumes "mono clock" "sample clock poses self 10 100 = Inr b"
  shows "buf_len b = 10 \<and> lock_step b \<and> sorted (buf_time b)"
proof -
  note t = sample_time [OF assms(2)]
  have "sorted (map (\<lambda>k. clock (3 * k + 2) - clock 0) [0..<n])" for n
    using assms(1) by (auto simp: sorted_iff_nth_mono monoD)
  with t show ?thesis by (simp add: buf_len_def)
qed

lemma sample_loop_still:
  "\<exists>b. sample_loop clock (\<lambda>j. [still_pose]) hmd0 s iv n j rtn = Inr b"
proof (induction n arbitrary: j rtn)
  case 0
  then show ?case by simp
next
  case (Suc n)
  obtain r rtn' where ap: "append_sample identity (clock (3 * j + 2) - s) rtn = (r, rtn')"
    by (cases "append_sample identity (clock (3 * j + 2) - s) rtn")
  with append_sample_identity [of "clock (3 * j + 2) - s" rtn] have "r = None" by simp
  with ap Suc.IH [of "Suc j" rtn'] show ?case
    by (simp add: bindE_def getitem_def hmd0_def still_pose_def)
qed

theorem sample_ten_at_hundred_witness:
  "mono (\<lambda>k. real k) \<and>
   (\<exists>b. sample (\<lambda>k. real k) (\<lambda>j. [still_pose]) hmd0 10 100 = Inr b \<and>
        buf_len b = 10 \<and> lock_step b \<and> sorted (buf_time b))"
proof -
  have m: "mono (\<lambda>k. real k)" by (simp add: mono_def)
  obtain b where b: "sample (\<lambda>k. real k) (\<lambda>j. [still_pose]) hmd0 10 100 = Inr b"
    using sample_loop_still [of "\<lambda>k. real k" "real 0" "1 / 100" "nat 10" 0 PoseSampleBuffer_init]
    by (auto simp: sample_def bindE_def divE_def)
  from sample_ten_at_hundred [OF m b] m b show ?thesis by blast
qed

text \<open>
  C10: for a slot whose backend class is none of Controller, HMD, GenericTracker and
  TrackingReference, \<open>add_tracked_device\<close> returns normally and leaves the registry as it
  was.
\<close>

theorem add_other_class_noop:
  assumes "vr_class i \<noteq> TrackedDeviceClass_Controller" "vr_class i \<noteq> TrackedDeviceClass_HMD"
    "vr_class i \<noteq> TrackedDeviceClass_GenericTracker"
    "vr_class i \<noteq> TrackedDeviceClass_TrackingReference"
  shows "add_tracked_device vr_class i self = (None, self)"
  using assms by (simp add: add_tracked_device_def)

theorem add_other_class_noop_witness:
  "add_tracked_device (\<lambda>i. TrackedDeviceClass_DisplayRedirect) 5 Tracker_fields = (None, Tracker_fields)"
  using add_other_class_noop [of "\<lambda>i. TrackedDeviceClass_DisplayRedirect" 5 Tracker_fields] by simp

text \<open>
  C4: on a slot index that is not a key of the slot-index map, \<open>remove_tracked_device\<close>
  raises the exception for an invalid device index and the registry is as it was.
\<close>

theorem remove_untracked_fails:
  assumes "device_index_map self i = None"
  shows "remove_tracked_device i self =
    (Some (Exception (''Tracked device index '' @ str i @ '' not valid. Not removing.'')), self)"
  using assms by (simp add: remove_tracked_device_def)

theorem remove_untracked_fails_witness:
  "device_index_map Tracker_fields 3 = None \<and>
   remove_tracked_device 3 Tracker_fields =
    (Some (Exception ''Tracked device index 3 not valid. Not removing.''), Tracker_fields)"
proof -
  have h: "device_index_map Tracker_fields 3 = None" by (simp add: Tracker_fields_def)
  from remove_untracked_fails [OF h] h show ?thesis by (simp add: str.simps)
qed

text \<open>
  C1, as stated: renaming a name that is not in the name table raises nothing. It fails:
  \<open>dict.pop\<close> raises \<open>KeyError\<close>.
\<close>

theorem rename_unknown_raises:
  "devices Tracker_fields ''controller_1'' = None \<and>
   rename_device ''controller_1'' ''left_hand'' Tracker_fields =
     (Some (KeyError ''controller_1''), Tracker_fields) \<and>
   fst (rename_device ''controller_1'' ''left_hand'' Tracker_fields) \<noteq> None"
  by (simp add: rename_device_def Tracker_fields_def)

text \<open>
  C1, amended: renaming a name that is not a key of the name table raises \<open>KeyError\<close>
  with that name and leaves the name table, the per-class name lists and the slot-index
  map unchanged.
\<close>

theorem rename_unknown_keyerror:
  assumes "devices self old_device_name = None"
  shows "rename_device old_device_name new_device_name self = (Some (KeyError old_device_name), self)"
  using assms by (simp add: rename_device_def)

theorem rename_unknown_keyerror_witness:
  "devices (snd (add_tracked_device (\<lambda>i. TrackedDeviceClass_Controller) 0 Tracker_fields)) ''hmd_1'' = None \<and>
   rename_device ''hmd_1'' ''head'' (snd (add_tracked_device (\<lambda>i. TrackedDeviceClass_Controller) 0 Tracker_fields)) =
     (Some (KeyError ''hmd_1''), snd (add_tracked_device (\<lambda>i. TrackedDeviceClass_Controller) 0 Tracker_fields))"
proof -
  have h: "devices (snd (add_tracked_device (\<lambda>i. TrackedDeviceClass_Controller) 0 Tracker_fields)) ''hmd_1'' = None"
    by (simp add: add_tracked_device_def add_as_def Tracker_fields_def Let_def str.simps)
  from rename_unknown_keyerror [OF h] h show ?thesis by simp
qed

lemma init_loop_absent:
  "list_all (\<lambda>i. i < length poses \<and> \<not> bDeviceIsConnected (poses ! i)) slots \<Longrightarrow>
   init_loop vr_class vr_serial poses config slots self = (None, self)"
  by (induction slots) (simp_all add: getitem_def seq_def)

lemma Tracker_init_absent:
  "Tracker_init vr_class vr_serial (replicate 64 absent_pose) config = (None, Tracker_fields)"
  unfolding Tracker_init_def
  by (rule init_loop_absent) (simp add: list_all_iff k_unMaxTrackedDeviceCount_def absent_pose_def)

lemma replug_facts:
  "fst (poll_vr_events (\<lambda>i. TrackedDeviceClass_Controller) replug_events Tracker_fields) = None"
  "class_list replug_state ''Controller'' = [''controller_2'']"
  "devices replug_state ''controller_2'' = None"
  "device_index_map replug_state 2 = Some ''controller_2''"
  "remove_tracked_device 2 replug_state = (Some (KeyError ''controller_2''), replug_state)"
  by (simp_all add: replug_state_def replug_events_def activated_def deactivated_def seq_def
      add_tracked_device_def add_as_def remove_tracked_device_def Tracker_fields_def str.simps
      Let_def class_list_def)

text \<open>
  C3 at a concrete hot-plug sequence. A registry built with no device connected sees
  controllers come and go on slots 0, 1 and 2. The name \<open>controller_2\<close> is given out
  twice, since a new name is numbered by the current length of the class list; removing
  slot 1 then deletes the handle that slot 2 shares. Afterwards the Controller list still
  holds \<open>controller_2\<close>, no handle has that name, and slot 2 maps to it, so that
  unplugging slot 2 ends in \<open>KeyError\<close>. The registry invariant does not hold.
\<close>

theorem replug_breaks_registry_inv:
  "Tracker_init (\<lambda>i. TrackedDeviceClass_Controller) (\<lambda>i. []) (replicate 64 absent_pose) None =
     (None, Tracker_fields) \<and>
   fst (poll_vr_events (\<lambda>i. TrackedDeviceClass_Controller) replug_events Tracker_fields) = None \<and>
   class_list replug_state ''Controller'' = [''controller_2''] \<and>
   devices replug_state ''controller_2'' = None \<and>
   device_index_map replug_state 2 = Some ''controller_2'' \<and>
   remove_tracked_device 2 replug_state = (Some (KeyError ''controller_2''), replug_state) \<and>
   \<not> registry_inv replug_state"
proof -
  have "''controller_2'' \<in> set (class_list replug_state ''Controller'')"
    by (simp add: replug_facts)
  moreover have "''controller_2'' \<notin> names_of_class replug_state ''Controller''"
    by (simp add: names_of_class_def replug_facts)
  ultimately have "\<not> registry_inv replug_state"
    unfolding registry_inv_def by blast
  with replug_facts Tracker_init_absent show ?thesis by simp
qed

end
